theory Spec2Isabelle
  imports Complex_Main
begin

section \<open>Numbers, arrays and errors\<close>

text \<open>
  The scripts compute with numpy arrays of IEEE doubles. A finite double is read here as
  the real number it denotes (rounding and overflow are not modelled); the three special
  values that numpy produces when it divides by zero are kept, because the fit can
  produce them.
\<close>

datatype npfloat = Fin real | PInf | NInf | NaN

text \<open>The Python exceptions the modelled code can raise, with their message.\<close>

datatype error =
    ValueError string | IndexError string | KeyError string | TypeError string
  | OverflowError string | LinAlgError string

fun np_multiply :: "npfloat \<Rightarrow> npfloat \<Rightarrow> npfloat" where
  "np_multiply (Fin a) (Fin b) = Fin (a * b)"
| "np_multiply NaN _ = NaN"
| "np_multiply _ NaN = NaN"
| "np_multiply (Fin a) PInf = (if a = 0 then NaN else if 0 < a then PInf else NInf)"
| "np_multiply (Fin a) NInf = (if a = 0 then NaN else if 0 < a then NInf else PInf)"
| "np_multiply PInf (Fin b) = (if b = 0 then NaN else if 0 < b then PInf else NInf)"
| "np_multiply NInf (Fin b) = (if b = 0 then NaN else if 0 < b then NInf else PInf)"
| "np_multiply PInf PInf = PInf"
| "np_multiply PInf NInf = NInf"
| "np_multiply NInf PInf = NInf"
| "np_multiply NInf NInf = PInf"

fun np_add :: "npfloat \<Rightarrow> npfloat \<Rightarrow> npfloat" where
  "np_add (Fin a) (Fin b) = Fin (a + b)"
| "np_add NaN _ = NaN"
| "np_add _ NaN = NaN"
| "np_add PInf NInf = NaN"
| "np_add NInf PInf = NaN"
| "np_add PInf _ = PInf"
| "np_add _ PInf = PInf"
| "np_add NInf _ = NInf"
| "np_add _ NInf = NInf"

text \<open>\<open>x ** i\<close> for a non-negative integer exponent: \<open>x ** 0\<close> is 1 for every \<open>x\<close>,
  also for NaN.\<close>

primrec np_power :: "npfloat \<Rightarrow> nat \<Rightarrow> npfloat" where
  "np_power x 0 = Fin 1"
| "np_power x (Suc n) = np_multiply x (np_power x n)"

text \<open>numpy's true division of finite doubles: dividing by zero raises nothing, it
  yields NaN (for 0/0) or an infinity.\<close>

definition np_divide :: "real \<Rightarrow> real \<Rightarrow> npfloat" where
  "np_divide a b =
     (if b = 0 then (if a = 0 then NaN else if 0 < a then PInf else NInf)
      else Fin (a / b))"

text \<open>
  A one-dimensional array is the list of its elements. A binary elementwise operation
  on two arrays follows numpy's broadcasting for one dimension: equal lengths pair up,
  an array of length one is stretched, anything else raises.
\<close>

type_synonym ndarray = "npfloat list"

definition broadcast_error :: error where
  "broadcast_error = ValueError ''operands could not be broadcast together''"

definition arr_binop ::
  "(npfloat \<Rightarrow> npfloat \<Rightarrow> npfloat) \<Rightarrow> ndarray \<Rightarrow> ndarray \<Rightarrow> error + ndarray" where
  "arr_binop f a b =
     (if length a = length b then Inr (map2 f a b)
      else if length a = 1 then Inr (map (f (hd a)) b)
      else if length b = 1 then Inr (map (\<lambda>u. f u (hd b)) a)
      else Inl broadcast_error)"

text \<open>In-place \<open>z += t\<close>: the result keeps the shape of \<open>z\<close>, so \<open>t\<close> must have the
  length of \<open>z\<close> or length one.\<close>

definition arr_iadd :: "ndarray \<Rightarrow> ndarray \<Rightarrow> error + ndarray" where
  "arr_iadd z t =
     (if length t = length z then Inr (map2 np_add z t)
      else if length t = 1 then Inr (map (\<lambda>u. np_add u (hd t)) z)
      else Inl broadcast_error)"

definition arr_power :: "ndarray \<Rightarrow> nat \<Rightarrow> ndarray" where
  "arr_power x i = map (\<lambda>v. np_power v i) x"

definition scalar_multiply :: "npfloat \<Rightarrow> ndarray \<Rightarrow> ndarray" where
  "scalar_multiply c x = map (np_multiply c) x"

definition zeros_like :: "ndarray \<Rightarrow> ndarray" where
  "zeros_like x = replicate (length x) (Fin 0)"

text \<open>\<open>xs[i]\<close> for a non-negative index.\<close>

definition getitem :: "'a list \<Rightarrow> nat \<Rightarrow> error + 'a" where
  "getitem xs i = (if i < length xs then Inr (xs ! i) else Inl (IndexError ''index out of bounds''))"

text \<open>A two-dimensional array: its shape and its rows.\<close>

record ndarray2 =
  shape :: "nat \<times> nat"
  rows :: "npfloat list list"

text \<open>\<open>np.vstack(terms)\<close> stacks equal-length arrays as the rows of a matrix; an empty
  list of arrays and arrays of different lengths raise.\<close>

definition vstack :: "ndarray list \<Rightarrow> error + ndarray2" where
  "vstack terms =
     (case terms of
        [] \<Rightarrow> Inl (ValueError ''need at least one array to concatenate'')
      | t # ts \<Rightarrow>
          if list_all (\<lambda>u. length u = length t) ts
          then Inr \<lparr>shape = (length terms, length t), rows = terms\<rparr>
          else Inl (ValueError ''all the input array dimensions must match''))"

definition transpose_T :: "ndarray2 \<Rightarrow> ndarray2" where
  "transpose_T m =
     \<lparr>shape = (snd (shape m), fst (shape m)),
      rows = map (\<lambda>n. map (\<lambda>r. r ! n) (rows m)) [0..<snd (shape m)]\<rparr>"

section \<open>A\_1: fitting the polynomial surface\<close>

subsection \<open>build\_design\_matrix\<close>

text \<open>
  \<^verbatim>\<open>
  terms = []
  for i in range(order + 1):
      for j in range(order + 1 - i):
          terms.append((x**i) * (y**j))
  return np.vstack(terms).T
  \<close>
  The loop state is the list \<open>terms\<close>, or the error raised on the way.
\<close>

definition design_term :: "ndarray \<Rightarrow> ndarray \<Rightarrow> nat \<Rightarrow> nat \<Rightarrow> error + ndarray" where
  "design_term x y i j = arr_binop np_multiply (arr_power x i) (arr_power y j)"

definition design_append ::
  "ndarray \<Rightarrow> ndarray \<Rightarrow> nat \<Rightarrow> nat \<Rightarrow> error + ndarray list \<Rightarrow> error + ndarray list" where
  "design_append x y i j st =
     (case st of
        Inl e \<Rightarrow> Inl e
      | Inr terms \<Rightarrow>
          (case design_term x y i j of
             Inl e \<Rightarrow> Inl e
           | Inr t \<Rightarrow> Inr (terms @ [t])))"

definition design_terms :: "ndarray \<Rightarrow> ndarray \<Rightarrow> int \<Rightarrow> error + ndarray list" where
  "design_terms x y order =
     fold (\<lambda>i. fold (design_append x y i) [0..<nat (order + 1 - int i)])
       [0..<nat (order + 1)] (Inr [])"

definition build_design_matrix :: "ndarray \<Rightarrow> ndarray \<Rightarrow> int \<Rightarrow> error + ndarray2" where
  "build_design_matrix x y order =
     (case design_terms x y order of
        Inl e \<Rightarrow> Inl e
      | Inr terms \<Rightarrow>
          (case vstack terms of
             Inl e \<Rightarrow> Inl e
           | Inr m \<Rightarrow> Inr (transpose_T m)))"

text \<open>The enumeration the specification names: exponent pairs \<open>(i, j)\<close> with \<open>i\<close> in
  \<open>[0, D]\<close> outer and \<open>j\<close> in \<open>[0, D - i]\<close> inner.\<close>

definition exponent_pairs :: "nat \<Rightarrow> (nat \<times> nat) list" where
  "exponent_pairs D = concat (map (\<lambda>i. map (Pair i) [0..<D + 1 - i]) [0..<D + 1])"

subsection \<open>evaluate\_fitted\_surface\<close>

text \<open>
  \<^verbatim>\<open>
  z = np.zeros_like(x)
  idx = 0
  for i in range(order + 1):
      for j in range(order + 1 - i):
          z += coeffs[idx] * (x**i) * (y**j)
          idx += 1
  return z
  \<close>
  The loop state is the pair \<open>(z, idx)\<close>, or the error raised on the way.
\<close>

definition surface_accumulate ::
  "ndarray \<Rightarrow> ndarray \<Rightarrow> ndarray \<Rightarrow> nat \<Rightarrow> nat \<Rightarrow> error + ndarray \<times> nat \<Rightarrow> error + ndarray \<times> nat" where
  "surface_accumulate coeffs x y i j st =
     (case st of
        Inl e \<Rightarrow> Inl e
      | Inr (z, idx) \<Rightarrow>
          (case getitem coeffs idx of
             Inl e \<Rightarrow> Inl e
           | Inr c \<Rightarrow>
               (case arr_binop np_multiply (scalar_multiply c (arr_power x i)) (arr_power y j) of
                  Inl e \<Rightarrow> Inl e
                | Inr t \<Rightarrow>
                    (case arr_iadd z t of
                       Inl e \<Rightarrow> Inl e
                     | Inr z' \<Rightarrow> Inr (z', idx + 1)))))"

definition evaluate_fitted_surface :: "ndarray \<Rightarrow> ndarray \<Rightarrow> ndarray \<Rightarrow> int \<Rightarrow> error + ndarray" where
  "evaluate_fitted_surface coeffs x y order =
     (case fold (\<lambda>i. fold (surface_accumulate coeffs x y i) [0..<nat (order + 1 - int i)])
             [0..<nat (order + 1)] (Inr (zeros_like x, 0)) of
        Inl e \<Rightarrow> Inl e
      | Inr (z, idx) \<Rightarrow> Inr z)"

subsection \<open>The mesh triangulation of create\_polynomial\_surface\<close>

text \<open>
  \<^verbatim>\<open>
  faces = []
  res_x, res_y = xg.shape
  for i in range(res_x - 1):
      for j in range(res_y - 1):
          idx = i * res_y + j
          faces.append([idx, idx + 1, idx + res_y])
          faces.append([idx + 1, idx + res_y + 1, idx + res_y])
  \<close>
\<close>

definition cell_faces :: "nat \<Rightarrow> nat \<Rightarrow> nat \<Rightarrow> nat list list" where
  "cell_faces res_y i j =
     (let idx = i * res_y + j
      in [[idx, idx + 1, idx + res_y], [idx + 1, idx + res_y + 1, idx + res_y]])"

definition mesh_faces :: "nat \<Rightarrow> nat \<Rightarrow> nat list list" where
  "mesh_faces res_x res_y =
     fold (\<lambda>i. fold (\<lambda>j faces. faces @ cell_faces res_y i j) [0..<res_y - 1])
       [0..<res_x - 1] []"

subsection \<open>create\_polynomial\_surface: reading the points\<close>

text \<open>
  \<^verbatim>\<open>
  with open(input_file, "r") as f:
      lines = f.readlines()[1:]
  points = [list(map(float, line.strip().split()[:3]))
            for line in lines if len(line.strip().split()) >= 3]
  \<close>
  The file is the list of its lines. \<open>str.strip\<close> and \<open>str.split\<close> with no argument work
  on runs of whitespace; the whitespace characters of ASCII are listed.
\<close>

definition is_space :: "char \<Rightarrow> bool" where
  "is_space c =
     (c \<in> set [CHR 0x09, CHR 0x0A, CHR 0x0B, CHR 0x0C, CHR 0x0D,
                CHR 0x1C, CHR 0x1D, CHR 0x1E, CHR 0x1F, CHR 0x20])"

definition str_strip :: "string \<Rightarrow> string" where
  "str_strip s = rev (dropWhile is_space (rev (dropWhile is_space s)))"

function str_split :: "string \<Rightarrow> string list" where
  "str_split [] = []"
| "str_split (c # cs) =
     (if is_space c then str_split cs
      else (c # takeWhile (\<lambda>d. \<not> is_space d) cs)
             # str_split (dropWhile (\<lambda>d. \<not> is_space d) cs))"
  by pat_completeness auto
termination
  by (relation "measure length") (auto simp: le_imp_less_Suc length_dropWhile_le)

text \<open>Python's \<open>float\<close> on a string is a parameter \<open>pyfloat\<close>: \<open>None\<close> where \<open>float\<close>
  raises \<open>ValueError\<close>. The numbers of a mapping file are finite decimals.\<close>

definition float_of_field :: "(string \<Rightarrow> real option) \<Rightarrow> string \<Rightarrow> error + real" where
  "float_of_field pyfloat s =
     (case pyfloat s of
        None \<Rightarrow> Inl (ValueError (''could not convert string to float: '' @ s))
      | Some v \<Rightarrow> Inr v)"

text \<open>One line of the comprehension: \<open>None\<close> when the filter \<open>len(...) >= 3\<close> drops the
  line, otherwise the three floats of its first three fields, or the error of the first
  field that \<open>float\<close> rejects.\<close>

definition point_of_line ::
  "(string \<Rightarrow> real option) \<Rightarrow> string \<Rightarrow> (error + real \<times> real \<times> real) option" where
  "point_of_line pyfloat line =
     (case str_split (str_strip line) of
        a # b # c # rest \<Rightarrow>
          Some (case float_of_field pyfloat a of
                  Inl e \<Rightarrow> Inl e
                | Inr u \<Rightarrow>
                    (case float_of_field pyfloat b of
                       Inl e \<Rightarrow> Inl e
                     | Inr v \<Rightarrow>
                         (case float_of_field pyfloat c of
                            Inl e \<Rightarrow> Inl e
                          | Inr w \<Rightarrow> Inr (u, v, w))))
      | _ \<Rightarrow> None)"

text \<open>The comprehension over the lines, in order: the first error aborts it.\<close>

fun points_of_lines ::
  "(string \<Rightarrow> real option) \<Rightarrow> string list \<Rightarrow> error + (real \<times> real \<times> real) list" where
  "points_of_lines pyfloat [] = Inr []"
| "points_of_lines pyfloat (line # lines) =
     (case point_of_line pyfloat line of
        None \<Rightarrow> points_of_lines pyfloat lines
      | Some (Inl e) \<Rightarrow> Inl e
      | Some (Inr p) \<Rightarrow>
          (case points_of_lines pyfloat lines of
             Inl e \<Rightarrow> Inl e
           | Inr ps \<Rightarrow> Inr (p # ps)))"

definition read_points ::
  "(string \<Rightarrow> real option) \<Rightarrow> string list \<Rightarrow> error + (real \<times> real \<times> real) list" where
  "read_points pyfloat file_lines = points_of_lines pyfloat (drop 1 file_lines)"

subsection \<open>create\_polynomial\_surface: normalisation and fit\<close>

text \<open>\<open>ndarray.mean\<close> and \<open>ndarray.std\<close> (the population standard deviation).\<close>

definition np_mean :: "real list \<Rightarrow> real" where
  "np_mean xs = sum_list xs / real (length xs)"

definition np_std :: "real list \<Rightarrow> real" where
  "np_std xs = sqrt (np_mean (map (\<lambda>v. \<bar>v - np_mean xs\<bar> ^ 2) xs))"

text \<open>\<open>(x_raw - x_mean) / x_std\<close>, elementwise.\<close>

definition standardize :: "real list \<Rightarrow> real \<Rightarrow> real \<Rightarrow> ndarray" where
  "standardize xs mean std = map (\<lambda>v. np_divide (v - mean) std) xs"

text \<open>
  \<^verbatim>\<open>
  points = np.array(points)
  x_raw, y_raw, z = points[:, 0], points[:, 1], points[:, 2]
  x_mean, x_std = x_raw.mean(), x_raw.std()
  y_mean, y_std = y_raw.mean(), y_raw.std()
  x = (x_raw - x_mean) / x_std
  y = (y_raw - y_mean) / y_std
  X_design = build_design_matrix(x, y, order)
  \<close>
  Everything up to the call of the solver. An empty list of points makes a
  one-dimensional array, and \<open>points[:, 0]\<close> raises \<open>IndexError\<close>. The result is the design
  matrix, \<open>z\<close>, and \<open>(x_mean, x_std, y_mean, y_std)\<close>.
\<close>

definition fit_inputs ::
  "(real \<times> real \<times> real) list \<Rightarrow> int
     \<Rightarrow> error + ndarray2 \<times> real list \<times> (real \<times> real \<times> real \<times> real)" where
  "fit_inputs points order =
     (if points = [] then Inl (IndexError ''too many indices for array'')
      else
        let x_raw = map fst points;
            y_raw = map (fst \<circ> snd) points;
            z = map (snd \<circ> snd) points;
            x_mean = np_mean x_raw; x_std = np_std x_raw;
            y_mean = np_mean y_raw; y_std = np_std y_raw;
            x = standardize x_raw x_mean x_std;
            y = standardize y_raw y_mean y_std
        in (case build_design_matrix x y order of
              Inl e \<Rightarrow> Inl e
            | Inr X_design \<Rightarrow> Inr (X_design, z, (x_mean, x_std, y_mean, y_std))))"

subsection \<open>create\_polynomial\_surface: the grid and the model\<close>

definition linspace :: "real \<Rightarrow> real \<Rightarrow> nat \<Rightarrow> real list" where
  "linspace start stop num = map (\<lambda>k. start + real k * ((stop - start) / real (num - 1))) [0..<num]"

text \<open>\<open>np.meshgrid(xs, ys)\<close>: two arrays of shape \<open>(len(ys), len(xs))\<close>, here flattened
  row by row.\<close>

definition meshgrid :: "real list \<Rightarrow> real list \<Rightarrow> real list \<times> real list" where
  "meshgrid xs ys = (concat (replicate (length ys) xs), concat (map (replicate (length xs)) ys))"

text \<open>The values a model file holds, and the model as the dict of the source.\<close>

datatype json = JInt int | JFloat npfloat | JList "json list"

type_synonym json_object = "(string \<times> json) list"

text \<open>
  \<^verbatim>\<open>
  model = {
      "order": order,
      "coeffs": coeffs.tolist(),
      "x_mean": float(x_mean),
      "x_std": float(x_std),
      "y_mean": float(y_mean),
      "y_std": float(y_std),
      "x_min": float(x_raw.min()),
      "x_max": float(x_raw.max()),
      "y_min": float(y_raw.min()),
      "y_max": float(y_raw.max()),
  }
  \<close>
\<close>

definition model_dict ::
  "int \<Rightarrow> ndarray \<Rightarrow> real \<times> real \<times> real \<times> real \<Rightarrow> real \<times> real \<times> real \<times> real \<Rightarrow> json_object" where
  "model_dict order coeffs stats bounds =
     (case stats of (x_mean, x_std, y_mean, y_std) \<Rightarrow>
      case bounds of (x_min, x_max, y_min, y_max) \<Rightarrow>
        [(''order'', JInt order),
         (''coeffs'', JList (map JFloat coeffs)),
         (''x_mean'', JFloat (Fin x_mean)),
         (''x_std'', JFloat (Fin x_std)),
         (''y_mean'', JFloat (Fin y_mean)),
         (''y_std'', JFloat (Fin y_std)),
         (''x_min'', JFloat (Fin x_min)),
         (''x_max'', JFloat (Fin x_max)),
         (''y_min'', JFloat (Fin y_min)),
         (''y_max'', JFloat (Fin y_max))])"

text \<open>
  The whole function, with numpy's least-squares solver as the parameter \<open>lstsq\<close> (it
  returns the coefficients or raises). The result is the mesh handed to the STL export
  (vertices and faces) and the model handed to \<open>json.dump\<close>; an error at any step
  leaves neither.
\<close>

definition create_polynomial_surface ::
  "(string \<Rightarrow> real option) \<Rightarrow> (ndarray2 \<Rightarrow> real list \<Rightarrow> error + ndarray) \<Rightarrow> string list \<Rightarrow> int
     \<Rightarrow> error + ((npfloat \<times> npfloat \<times> npfloat) list \<times> nat list list) \<times> json_object" where
  "create_polynomial_surface pyfloat lstsq file_lines order =
     (case read_points pyfloat file_lines of
        Inl e \<Rightarrow> Inl e
      | Inr points \<Rightarrow>
     (case fit_inputs points order of
        Inl e \<Rightarrow> Inl e
      | Inr (X_design, z, (x_mean, x_std, y_mean, y_std)) \<Rightarrow>
     (case lstsq X_design z of
        Inl e \<Rightarrow> Inl e
      | Inr coeffs \<Rightarrow>
          let x_raw = map fst points;
              y_raw = map (fst \<circ> snd) points;
              bounds = (Min (set x_raw), Max (set x_raw), Min (set y_raw), Max (set y_raw));
              x_grid_raw = linspace (Min (set x_raw)) (Max (set x_raw)) 100;
              y_grid_raw = linspace (Min (set y_raw)) (Max (set y_raw)) 100;
              (xg_raw, yg_raw) = meshgrid x_grid_raw y_grid_raw;
              xg = standardize xg_raw x_mean x_std;
              yg = standardize yg_raw y_mean y_std
          in (case evaluate_fitted_surface coeffs xg yg order of
                Inl e \<Rightarrow> Inl e
              | Inr zg \<Rightarrow>
                  Inr ((zip (map Fin xg_raw) (zip (map Fin yg_raw) zg),
                        mesh_faces (length y_grid_raw) (length x_grid_raw)),
                       model_dict order coeffs (x_mean, x_std, y_mean, y_std) bounds)))))"

section \<open>A\_2: the variable-pitch mapping\<close>

subsection \<open>eval\_poly2d\<close>

text \<open>
  \<^verbatim>\<open>
  z = np.zeros_like(x_norm)
  idx = 0
  for i in range(order + 1):
      for j in range(order + 1 - i):
          z += coeffs[idx] * (x_norm**i) * (y_norm**j)
          idx += 1
  return z
  \<close>
\<close>

definition poly2d_accumulate ::
  "ndarray \<Rightarrow> ndarray \<Rightarrow> ndarray \<Rightarrow> nat \<Rightarrow> nat \<Rightarrow> error + ndarray \<times> nat \<Rightarrow> error + ndarray \<times> nat" where
  "poly2d_accumulate coeffs x_norm y_norm i j st =
     (case st of
        Inl e \<Rightarrow> Inl e
      | Inr (z, idx) \<Rightarrow>
          (case getitem coeffs idx of
             Inl e \<Rightarrow> Inl e
           | Inr c \<Rightarrow>
               (case arr_binop np_multiply (scalar_multiply c (arr_power x_norm i))
                       (arr_power y_norm j) of
                  Inl e \<Rightarrow> Inl e
                | Inr t \<Rightarrow>
                    (case arr_iadd z t of
                       Inl e \<Rightarrow> Inl e
                     | Inr z' \<Rightarrow> Inr (z', idx + 1)))))"

definition eval_poly2d :: "ndarray \<Rightarrow> ndarray \<Rightarrow> ndarray \<Rightarrow> int \<Rightarrow> error + ndarray" where
  "eval_poly2d coeffs x_norm y_norm order =
     (case fold (\<lambda>i. fold (poly2d_accumulate coeffs x_norm y_norm i) [0..<nat (order + 1 - int i)])
             [0..<nat (order + 1)] (Inr (zeros_like x_norm, 0)) of
        Inl e \<Rightarrow> Inl e
      | Inr (z, idx) \<Rightarrow> Inr z)"

subsection \<open>linear\_pitch\_x and generate\_points\<close>

text \<open>The pitches and the domain bounds are Python floats, read as real numbers.\<close>

definition np_clip :: "real \<Rightarrow> real \<Rightarrow> real \<Rightarrow> real" where
  "np_clip v lo hi = min (max v lo) hi"

text \<open>
  \<^verbatim>\<open>
  if x_max == x_min:
      return p_start
  t = np.clip((x - x_min) / (x_max - x_min), 0.0, 1.0)
  return p_start * (1.0 - t) + p_end * t
  \<close>
\<close>

definition linear_pitch_x :: "real \<Rightarrow> real \<Rightarrow> real \<Rightarrow> real \<Rightarrow> real \<Rightarrow> real" where
  "linear_pitch_x x x_min x_max p_start p_end =
     (if x_max = x_min then p_start
      else let t = np_clip ((x - x_min) / (x_max - x_min)) 0 1
           in p_start * (1 - t) + p_end * t)"

definition eps :: real where
  "eps = 1 / 10 ^ 12"

definition edge_tol :: real where
  "edge_tol = 1 / 10 ^ 9"

text \<open>
  \<^verbatim>\<open>
  while y <= y_max + eps:
      ys.append(min(y, y_max))
      y += p_y
  \<close>
  A while loop may run forever, so its result is an option: \<open>None\<close> is "never returns".
\<close>

partial_function (option) walk_y :: "real \<Rightarrow> real \<Rightarrow> real \<Rightarrow> real list \<Rightarrow> real list option" where
  "walk_y y_max p_y y ys =
     (if y \<le> y_max + eps then walk_y y_max p_y (y + p_y) (ys @ [min y y_max]) else Some ys)"

text \<open>
  \<^verbatim>\<open>
  while x <= x_max + eps:
      row.append(min(x, x_max))
      x += linear_pitch_x(x, x_min, x_max, p_start, p_end)
  \<close>
\<close>

partial_function (option) walk_x ::
  "real \<Rightarrow> real \<Rightarrow> real \<Rightarrow> real \<Rightarrow> real \<Rightarrow> real list \<Rightarrow> real list option" where
  "walk_x x_min x_max p_start p_end x row =
     (if x \<le> x_max + eps
      then walk_x x_min x_max p_start p_end
             (x + linear_pitch_x x x_min x_max p_start p_end) (row @ [min x x_max])
      else Some row)"

text \<open>
  \<^verbatim>\<open>
  if include_edges and abs(row[-1] - x_max) > 1e-9:
      row.append(x_max)
  \<close>
  The same statement closes the list of \<open>y\<close> values with \<open>y_max\<close>. \<open>row[-1]\<close> of an empty
  list raises; it is evaluated only when \<open>include_edges\<close> holds.
\<close>

definition finish_edge :: "bool \<Rightarrow> real \<Rightarrow> real list \<Rightarrow> error + real list" where
  "finish_edge include_edges bound vs =
     (if include_edges
      then (if vs = [] then Inl (IndexError ''list index out of range'')
            else if \<bar>last vs - bound\<bar> > edge_tol then Inr (vs @ [bound])
            else Inr vs)
      else Inr vs)"

text \<open>One pass of the body of \<open>for yy in ys\<close>, up to the finished row.\<close>

definition grid_row ::
  "real \<Rightarrow> real \<Rightarrow> real \<Rightarrow> real \<Rightarrow> bool \<Rightarrow> (error + real list) option" where
  "grid_row x_min x_max p_start p_end include_edges =
     (case walk_x x_min x_max p_start p_end x_min [] of
        None \<Rightarrow> None
      | Some row \<Rightarrow> Some (finish_edge include_edges x_max row))"

text \<open>
  \<^verbatim>\<open>
  for yy in ys:
      ...
      X_list.extend(row)
      Y_list.extend([yy] * len(row))
  \<close>
\<close>

fun grid_rows ::
  "real \<Rightarrow> real \<Rightarrow> real \<Rightarrow> real \<Rightarrow> bool \<Rightarrow> real list \<Rightarrow> real list \<times> real list
     \<Rightarrow> (error + real list \<times> real list) option" where
  "grid_rows x_min x_max p_start p_end include_edges [] (X_list, Y_list) =
     Some (Inr (X_list, Y_list))"
| "grid_rows x_min x_max p_start p_end include_edges (yy # ys) (X_list, Y_list) =
     (case grid_row x_min x_max p_start p_end include_edges of
        None \<Rightarrow> None
      | Some (Inl e) \<Rightarrow> Some (Inl e)
      | Some (Inr row) \<Rightarrow>
          grid_rows x_min x_max p_start p_end include_edges ys
            (X_list @ row, Y_list @ replicate (length row) yy))"

definition generate_points ::
  "real \<times> real \<times> real \<times> real \<Rightarrow> real \<Rightarrow> real \<Rightarrow> real \<Rightarrow> bool
     \<Rightarrow> (error + real list \<times> real list) option" where
  "generate_points domain p_start p_end p_y include_edges =
     (case domain of (x_min, x_max, y_min, y_max) \<Rightarrow>
        if p_start \<le> 0 \<or> p_end \<le> 0 \<or> p_y \<le> 0
        then Some (Inl (ValueError ''All pitch values must be positive.''))
        else (case walk_y y_max p_y y_min [] of
                None \<Rightarrow> None
              | Some ys0 \<Rightarrow>
                  (case finish_edge include_edges y_max ys0 of
                     Inl e \<Rightarrow> Some (Inl e)
                   | Inr ys \<Rightarrow>
                       grid_rows x_min x_max p_start p_end include_edges ys ([], []))))"

subsection \<open>main: loading the model\<close>

text \<open>
  \<^verbatim>\<open>
  order = int(model["order"])
  coeffs = np.asarray(model["coeffs"], float)
  x_mean, x_std = float(model["x_mean"]), float(model["x_std"])
  y_mean, y_std = float(model["y_mean"]), float(model["y_std"])
  x_min = X_MIN or float(model["x_min"])
  x_max = X_MAX or float(model["x_max"])
  y_min = Y_MIN or float(model["y_min"])
  y_max = Y_MAX or float(model["y_max"])
  \<close>
  \<open>json.load\<close> gives back the dict that \<open>json.dump\<close> wrote (Python prints a float with
  the digits that read back as the same float), so the file is the dict.
  \<open>X_MIN\<close>, \<open>X_MAX\<close>, \<open>Y_MIN\<close>, \<open>Y_MAX\<close> are \<open>None\<close> in the script.
\<close>

definition getkey :: "json_object \<Rightarrow> string \<Rightarrow> error + json" where
  "getkey d k = (case map_of d k of None \<Rightarrow> Inl (KeyError k) | Some v \<Rightarrow> Inr v)"

fun py_int :: "json \<Rightarrow> error + int" where
  "py_int (JInt n) = Inr n"
| "py_int (JFloat (Fin r)) = Inr (if 0 \<le> r then \<lfloor>r\<rfloor> else \<lceil>r\<rceil>)"
| "py_int (JFloat NaN) = Inl (ValueError ''cannot convert float NaN to integer'')"
| "py_int (JFloat _) = Inl (OverflowError ''cannot convert float infinity to integer'')"
| "py_int (JList _) = Inl (TypeError ''int() argument must be a string or a real number'')"

fun py_float :: "json \<Rightarrow> error + npfloat" where
  "py_float (JInt n) = Inr (Fin (of_int n))"
| "py_float (JFloat v) = Inr v"
| "py_float (JList _) = Inl (TypeError ''float() argument must be a string or a real number'')"

text \<open>\<open>np.asarray(v, float)\<close> for a flat list of numbers; a list inside the list is not
  a coefficient vector and is reported as the error numpy gives for a ragged one.\<close>

fun floats_of :: "json list \<Rightarrow> error + ndarray" where
  "floats_of [] = Inr []"
| "floats_of (v # vs) =
     (case py_float v of
        Inl e \<Rightarrow> Inl (ValueError ''setting an array element with a sequence'')
      | Inr u \<Rightarrow> (case floats_of vs of Inl e \<Rightarrow> Inl e | Inr us \<Rightarrow> Inr (u # us)))"

fun np_asarray :: "json \<Rightarrow> error + ndarray" where
  "np_asarray (JList vs) = floats_of vs"
| "np_asarray v = (case py_float v of Inl e \<Rightarrow> Inl e | Inr u \<Rightarrow> Inr [u])"

text \<open>Sequencing of steps that may raise: the first error ends the computation.\<close>

definition bind_err :: "error + 'a \<Rightarrow> ('a \<Rightarrow> error + 'b) \<Rightarrow> error + 'b" where
  "bind_err m f = (case m of Inl e \<Rightarrow> Inl e | Inr v \<Rightarrow> f v)"

definition float_key :: "json_object \<Rightarrow> string \<Rightarrow> error + npfloat" where
  "float_key model k = bind_err (getkey model k) py_float"

definition load_model ::
  "json_object \<Rightarrow>
     error + int \<times> ndarray \<times> (npfloat \<times> npfloat \<times> npfloat \<times> npfloat)
               \<times> (npfloat \<times> npfloat \<times> npfloat \<times> npfloat)" where
  "load_model model =
     bind_err (bind_err (getkey model ''order'') py_int) (\<lambda>order.
     bind_err (bind_err (getkey model ''coeffs'') np_asarray) (\<lambda>coeffs.
     bind_err (float_key model ''x_mean'') (\<lambda>x_mean.
     bind_err (float_key model ''x_std'') (\<lambda>x_std.
     bind_err (float_key model ''y_mean'') (\<lambda>y_mean.
     bind_err (float_key model ''y_std'') (\<lambda>y_std.
     bind_err (float_key model ''x_min'') (\<lambda>x_min.
     bind_err (float_key model ''x_max'') (\<lambda>x_max.
     bind_err (float_key model ''y_min'') (\<lambda>y_min.
     bind_err (float_key model ''y_max'') (\<lambda>y_max.
       Inr (order, coeffs, (x_mean, x_std, y_mean, y_std),
            (x_min, x_max, y_min, y_max))))))))))))"

subsection \<open>Notions used in the statements\<close>

text \<open>Python's \<open>float\<close> on the strings \<open>0\<close>, \<open>1\<close>, \<open>2\<close>: a stand-in for the parameter
  \<open>pyfloat\<close> in the examples, whose numeric fields are only these strings.\<close>

definition example_float :: "string \<Rightarrow> real option" where
  "example_float = map_of [(''0'', 0), (''1'', 1), (''2'', 2)]"


text \<open>One monomial \<open>c * u^i * v^j\<close> added to a running sum, multiplied in the order of
  the source expression \<open>coeffs[idx] * (x**i) * (y**j)\<close>.\<close>

definition term_add :: "npfloat \<Rightarrow> npfloat \<Rightarrow> npfloat \<Rightarrow> npfloat \<times> nat \<times> nat \<Rightarrow> npfloat" where
  "term_add u v =
     (\<lambda>z (c, (i, j)). np_add z (np_multiply (np_multiply c (np_power u i)) (np_power v j)))"

text \<open>The value the specification assigns to one point: the sum, in enumeration order,
  of \<open>C[k] * x^i * y^j\<close> over the exponent pairs.\<close>

definition poly_value :: "ndarray \<Rightarrow> nat \<Rightarrow> npfloat \<Rightarrow> npfloat \<Rightarrow> npfloat" where
  "poly_value coeffs D u v = foldl (term_add u v) (Fin 0) (zip coeffs (exponent_pairs D))"

section \<open>Verification\<close>

subsection \<open>Mesh triangulation\<close>

lemma fold_append_concat:
  "fold (\<lambda>j acc. acc @ g j) js acc = acc @ concat (map g js)"
  by (induction js arbitrary: acc) simp_all

lemma fold_fold_append_concat:
  "fold (\<lambda>i. fold (\<lambda>j acc. acc @ g i j) (js i)) is acc
     = acc @ concat (map (\<lambda>i. concat (map (g i) (js i))) is)"
  by (induction "is" arbitrary: acc) (simp_all add: fold_append_concat)

lemma mesh_faces_concat:
  "mesh_faces res_x res_y =
     concat (map (\<lambda>i. concat (map (cell_faces res_y i) [0..<res_y - 1])) [0..<res_x - 1])"
  unfolding mesh_faces_def by (simp add: fold_fold_append_concat)

lemma length_concat_uniform:
  "(\<And>x. x \<in> set xs \<Longrightarrow> length (f x) = m) \<Longrightarrow> length (concat (map f xs)) = length xs * m"
  by (induction xs) simp_all

lemma nth_concat_uniform:
  "(\<And>x. x \<in> set xs \<Longrightarrow> length (f x) = m) \<Longrightarrow> k < length xs \<Longrightarrow> r < m \<Longrightarrow>
     concat (map f xs) ! (k * m + r) = f (xs ! k) ! r"
proof (induction xs arbitrary: k)
  case Nil
  then show ?case by simp
next
  case (Cons a xs)
  show ?case
  proof (cases k)
    case 0
    with Cons.prems show ?thesis by (simp add: nth_append)
  next
    case (Suc k')
    have "concat (map f (a # xs)) ! (k * m + r) = concat (map f xs) ! (k' * m + r)"
      using Cons.prems Suc by (simp add: nth_append)
    also have "\<dots> = f (xs ! k') ! r"
      using Cons.prems Suc by (intro Cons.IH) simp_all
    finally show ?thesis using Suc by simp
  qed
qed

lemma length_cell_faces: "length (cell_faces res_y i j) = 2"
  by (simp add: cell_faces_def Let_def)

lemma length_row_faces:
  "length (concat (map (cell_faces res_y i) [0..<n])) = n * 2"
  using length_concat_uniform [of "[0..<n]" "cell_faces res_y i" 2]
  by (simp add: length_cell_faces)

text \<open>
  C7. The faces are emitted cell by cell in row-major order, two triangles per cell: the
  cell \<open>(i, j)\<close> with flattened index \<open>idx = i * res_y + j\<close> contributes
  \<open>(idx, idx + 1, idx + res_y)\<close> and then \<open>(idx + 1, idx + res_y + 1, idx + res_y)\<close>,
  and nothing else is emitted. A grid of resolution 2 gives exactly \<open>(0, 1, 2)\<close> and
  \<open>(1, 3, 2)\<close>.
\<close>

theorem mesh_faces_rule:
  "length (mesh_faces res_x res_y) = 2 * ((res_x - 1) * (res_y - 1)) \<and>
   (\<forall>i j. i < res_x - 1 \<and> j < res_y - 1 \<longrightarrow>
      mesh_faces res_x res_y ! (2 * (i * (res_y - 1) + j))
        = [i * res_y + j, i * res_y + j + 1, i * res_y + j + res_y] \<and>
      mesh_faces res_x res_y ! (2 * (i * (res_y - 1) + j) + 1)
        = [i * res_y + j + 1, i * res_y + j + res_y + 1, i * res_y + j + res_y]) \<and>
   mesh_faces 2 2 = [[0, 1, 2], [1, 3, 2]]"
proof (intro conjI allI impI)
  let ?row = "\<lambda>i. concat (map (cell_faces res_y i) [0..<res_y - 1])"
  have len_row: "\<And>i. length (?row i) = (res_y - 1) * 2"
    by (rule length_row_faces)
  show "length (mesh_faces res_x res_y) = 2 * ((res_x - 1) * (res_y - 1))"
    using length_concat_uniform [of "[0..<res_x - 1]" ?row "(res_y - 1) * 2"] len_row
    by (simp add: mesh_faces_concat)
  show "mesh_faces 2 2 = [[0, 1, 2], [1, 3, 2]]"
    by (simp add: mesh_faces_def cell_faces_def)
  fix i j
  assume ij: "i < res_x - 1 \<and> j < res_y - 1"
  have cell: "\<And>r. r < 2 \<Longrightarrow>
      mesh_faces res_x res_y ! (2 * (i * (res_y - 1) + j) + r) = cell_faces res_y i j ! r"
  proof -
    fix r :: nat
    assume r: "r < 2"
    have "mesh_faces res_x res_y ! (i * ((res_y - 1) * 2) + (j * 2 + r))
            = ?row ([0..<res_x - 1] ! i) ! (j * 2 + r)"
      unfolding mesh_faces_concat
      using ij r len_row
      by (intro nth_concat_uniform) auto
    also have "\<dots> = ?row i ! (j * 2 + r)"
      using ij by simp
    also have "\<dots> = cell_faces res_y i ([0..<res_y - 1] ! j) ! r"
      using ij r by (intro nth_concat_uniform) (auto simp: length_cell_faces)
    also have "\<dots> = cell_faces res_y i j ! r"
      using ij by simp
    finally have "mesh_faces res_x res_y ! (i * ((res_y - 1) * 2) + (j * 2 + r))
            = cell_faces res_y i j ! r" .
    moreover have "2 * (i * (res_y - 1) + j) + r = i * ((res_y - 1) * 2) + (j * 2 + r)"
      by (simp add: distrib_left mult.commute mult.left_commute)
    ultimately show "mesh_faces res_x res_y ! (2 * (i * (res_y - 1) + j) + r) = cell_faces res_y i j ! r"
      by (simp only:)
  qed
  show "mesh_faces res_x res_y ! (2 * (i * (res_y - 1) + j))
        = [i * res_y + j, i * res_y + j + 1, i * res_y + j + res_y]"
    using cell [of 0] by (simp add: cell_faces_def Let_def)
  show "mesh_faces res_x res_y ! (2 * (i * (res_y - 1) + j) + 1)
        = [i * res_y + j + 1, i * res_y + j + res_y + 1, i * res_y + j + res_y]"
    using cell [of 1] by (simp add: cell_faces_def Let_def)
qed

theorem mesh_faces_rule_witness:
  "mesh_faces 3 3 ! 6 = [4, 5, 7] \<and> mesh_faces 3 3 ! 7 = [5, 8, 7] \<and> length (mesh_faces 3 3) = 8"
  using mesh_faces_rule [of 3 3, THEN conjunct2, THEN conjunct1, rule_format, of 1 1]
    mesh_faces_rule [of 3 3, THEN conjunct1]
  by simp

subsection \<open>The exponent-pair enumeration\<close>

lemma fold_nested_pairs:
  "fold (\<lambda>i. fold (f i) (js i)) is st
     = fold (\<lambda>(i, j). f i j) (concat (map (\<lambda>i. map (Pair i) (js i)) is)) st"
proof (induction "is" arbitrary: st)
  case Nil
  then show ?case by simp
next
  case (Cons a "is")
  have "fold (f a) (js a) st = fold (\<lambda>(i, j). f i j) (map (Pair a) (js a)) st"
    by (simp add: fold_map comp_def)
  then show ?case using Cons.IH by simp
qed

lemma nat_order_range: "nat (int D + 1 - int i) = D + 1 - i"
  by simp

lemma nested_range_pairs:
  "fold (\<lambda>i. fold (f i) [0..<nat (int D + 1 - int i)]) [0..<nat (int D + 1)] st
     = fold (\<lambda>(i, j). f i j) (exponent_pairs D) st"
proof -
  have "nat (int D + 1) = D + 1" by simp
  then show ?thesis
    unfolding exponent_pairs_def
    using fold_nested_pairs [of f "\<lambda>i. [0..<D + 1 - i]" "[0..<D + 1]" st]
    by (simp only: nat_order_range)
qed

lemma sum_descending: "(\<Sum>i<m. m - i) = m * (m + 1) div (2::nat)"
proof (induction m)
  case 0
  then show ?case by simp
next
  case (Suc m)
  have "(\<Sum>i<Suc m. Suc m - i) = (\<Sum>i<m. Suc m - i) + 1"
    by simp
  also have "(\<Sum>i<m. Suc m - i) = (\<Sum>i<m. Suc (m - i))"
    by (rule sum.cong) (simp_all add: Suc_diff_le)
  also have "\<dots> = (\<Sum>i<m. m - i) + m"
    by (simp add: sum_Suc)
  finally show ?case using Suc by simp
qed

lemma sum_list_descending: "sum_list (map (\<lambda>i. Suc n - i) [0..<Suc n]) = (n + 1) * (n + 2) div 2"
proof -
  have "sum_list (map (\<lambda>i. Suc n - i) [0..<Suc n]) = (\<Sum>i<Suc n. Suc n - i)"
    by (simp only: interv_sum_list_conv_sum_set_nat atLeast_upt [symmetric] lessThan_atLeast0)
  then show ?thesis by (simp only: sum_descending) simp
qed

lemma length_exponent_pairs: "length (exponent_pairs D) = (D + 1) * (D + 2) div 2"
proof -
  have "length (exponent_pairs D) = sum_list (map (\<lambda>i. Suc D - i) [0..<Suc D])"
    by (simp add: exponent_pairs_def length_concat comp_def)
  then show ?thesis by (simp only: sum_list_descending)
qed

subsection \<open>The design matrix\<close>

lemma map2_conv_nth:
  "length x = length y \<Longrightarrow> map2 f x y = map (\<lambda>n. f (x ! n) (y ! n)) [0..<length x]"
  by (rule nth_equalityI) simp_all

lemma design_term_equal_length:
  "length x = length y \<Longrightarrow>
     design_term x y i j = Inr (map2 np_multiply (arr_power x i) (arr_power y j))"
  by (simp add: design_term_def arr_binop_def arr_power_def)

lemma design_append_pairs:
  "length x = length y \<Longrightarrow>
     fold (\<lambda>(i, j). design_append x y i j) ps (Inr acc)
       = Inr (acc @ map (\<lambda>(i, j). map2 np_multiply (arr_power x i) (arr_power y j)) ps)"
proof (induction ps arbitrary: acc)
  case Nil
  then show ?case by simp
next
  case (Cons p ps)
  obtain i j where p: "p = (i, j)" by (cases p)
  have "design_append x y i j (Inr acc)
          = Inr (acc @ [map2 np_multiply (arr_power x i) (arr_power y j)])"
    using Cons.prems by (simp add: design_append_def design_term_equal_length)
  then show ?case using Cons.IH [OF Cons.prems] p by simp
qed

lemma design_terms_pairs:
  "length x = length y \<Longrightarrow>
     design_terms x y (int D)
       = Inr (map (\<lambda>(i, j). map2 np_multiply (arr_power x i) (arr_power y j)) (exponent_pairs D))"
  unfolding design_terms_def
  by (simp only: nested_range_pairs) (simp add: design_append_pairs)

lemma exponent_pairs_nonempty: "exponent_pairs D \<noteq> []"
proof -
  have "0 < length (exponent_pairs D)"
    by (simp add: length_exponent_pairs)
  then show ?thesis by auto
qed

lemma vstack_uniform:
  "terms \<noteq> [] \<Longrightarrow> (\<And>t. t \<in> set terms \<Longrightarrow> length t = n) \<Longrightarrow>
     vstack terms = Inr \<lparr>shape = (length terms, n), rows = terms\<rparr>"
  by (cases terms) (auto simp: vstack_def list_all_iff)

lemma build_design_matrix_int:
  assumes len: "length x = length y"
  shows "build_design_matrix x y (int D) =
     Inr \<lparr>shape = (length x, length (exponent_pairs D)),
          rows = map (\<lambda>n. map (\<lambda>(i, j). np_multiply (np_power (x ! n) i) (np_power (y ! n) j))
                               (exponent_pairs D)) [0..<length x]\<rparr>"
proof -
  let ?terms = "map (\<lambda>(i, j). map2 np_multiply (arr_power x i) (arr_power y j)) (exponent_pairs D)"
  have ne: "?terms \<noteq> []" using exponent_pairs_nonempty by simp
  have ln: "\<And>t. t \<in> set ?terms \<Longrightarrow> length t = length x"
    using len by (auto simp: arr_power_def)
  have vs: "vstack ?terms = Inr \<lparr>shape = (length ?terms, length x), rows = ?terms\<rparr>"
    using vstack_uniform [OF ne ln] by blast
  have rows_eq: "map (\<lambda>n. map (\<lambda>r. r ! n) ?terms) [0..<length x]
      = map (\<lambda>n. map (\<lambda>(i, j). np_multiply (np_power (x ! n) i) (np_power (y ! n) j))
                               (exponent_pairs D)) [0..<length x]"
    using len by (auto simp: arr_power_def split_def)
  show ?thesis
    unfolding build_design_matrix_def
    by (simp add: design_terms_pairs [OF len] vs transpose_T_def rows_eq del: map_map)
qed

lemma design_matrix_shape:
  assumes "length x = length y" and "0 \<le> D"
  shows "\<exists>m. build_design_matrix x y D = Inr m
           \<and> shape m = (length x, nat ((D + 1) * (D + 2) div 2))
           \<and> length (exponent_pairs (nat D)) = nat ((D + 1) * (D + 2) div 2)
           \<and> length (rows m) = length x
           \<and> (\<forall>n < length x. length (rows m ! n) = nat ((D + 1) * (D + 2) div 2)
                \<and> (\<forall>k < length (exponent_pairs (nat D)).
                      rows m ! n ! k =
                        np_multiply (np_power (x ! n) (fst (exponent_pairs (nat D) ! k)))
                                    (np_power (y ! n) (snd (exponent_pairs (nat D) ! k)))))"
proof -
  obtain d where d: "D = int d" using assms(2) nonneg_int_cases by blast
  have cnt: "nat ((D + 1) * (D + 2) div 2) = (d + 1) * (d + 2) div 2"
  proof -
    have "int ((d + 1) * (d + 2) div 2) = (D + 1) * (D + 2) div 2"
      unfolding d by (simp only: zdiv_int of_nat_mult of_nat_add of_nat_1 of_nat_numeral)
    then show ?thesis by simp
  qed
  show ?thesis
    unfolding d cnt [unfolded d]
    by (simp add: build_design_matrix_int [OF assms(1)] length_exponent_pairs split_def)
qed

subsection \<open>The two evaluators\<close>

lemma surface_accumulate_step:
  assumes "length x = length y" "length z = length x" "idx < length coeffs"
  shows "surface_accumulate coeffs x y i j (Inr (z, idx))
     = Inr (map (\<lambda>n. term_add (x ! n) (y ! n) (z ! n) (coeffs ! idx, (i, j))) [0..<length x],
            idx + 1)"
proof -
  have t: "arr_binop np_multiply (scalar_multiply (coeffs ! idx) (arr_power x i)) (arr_power y j)
      = Inr (map2 np_multiply (scalar_multiply (coeffs ! idx) (arr_power x i)) (arr_power y j))"
    using assms by (simp add: arr_binop_def scalar_multiply_def arr_power_def)
  have a: "arr_iadd z (map2 np_multiply (scalar_multiply (coeffs ! idx) (arr_power x i)) (arr_power y j))
      = Inr (map2 np_add z (map2 np_multiply (scalar_multiply (coeffs ! idx) (arr_power x i)) (arr_power y j)))"
    using assms by (simp add: arr_iadd_def scalar_multiply_def arr_power_def)
  have e: "map2 np_add z (map2 np_multiply (scalar_multiply (coeffs ! idx) (arr_power x i)) (arr_power y j))
      = map (\<lambda>n. term_add (x ! n) (y ! n) (z ! n) (coeffs ! idx, (i, j))) [0..<length x]"
    using assms
    by (intro nth_equalityI) (simp_all add: scalar_multiply_def arr_power_def term_add_def)
  show ?thesis
    using assms(3) by (simp add: surface_accumulate_def getitem_def t a e)
qed

lemma surface_accumulate_pairs:
  "length x = length y \<Longrightarrow> length z = length x \<Longrightarrow> idx + length ps \<le> length coeffs \<Longrightarrow>
     fold (\<lambda>(i, j). surface_accumulate coeffs x y i j) ps (Inr (z, idx))
       = Inr (map (\<lambda>n. foldl (term_add (x ! n) (y ! n)) (z ! n) (zip (drop idx coeffs) ps))
                [0..<length x], idx + length ps)"
proof (induction ps arbitrary: z idx)
  case Nil
  have "map ((!) z) [0..<length z] = z" by (rule map_nth)
  then show ?case using Nil by simp
next
  case (Cons p ps)
  obtain i j where p: "p = (i, j)" by (cases p)
  have idx: "idx < length coeffs" using Cons.prems(3) by simp
  let ?z1 = "map (\<lambda>n. term_add (x ! n) (y ! n) (z ! n) (coeffs ! idx, (i, j))) [0..<length x]"
  have step: "surface_accumulate coeffs x y i j (Inr (z, idx)) = Inr (?z1, idx + 1)"
    by (rule surface_accumulate_step [OF Cons.prems(1,2) idx])
  have ih: "fold (\<lambda>(i, j). surface_accumulate coeffs x y i j) ps (Inr (?z1, idx + 1))
       = Inr (map (\<lambda>n. foldl (term_add (x ! n) (y ! n)) (?z1 ! n) (zip (drop (idx + 1) coeffs) ps))
                [0..<length x], idx + 1 + length ps)"
    using Cons.prems by (intro Cons.IH) simp_all
  have dr: "drop idx coeffs = coeffs ! idx # drop (idx + 1) coeffs"
    using idx by (simp add: Cons_nth_drop_Suc)
  have "map (\<lambda>n. foldl (term_add (x ! n) (y ! n)) (?z1 ! n) (zip (drop (idx + 1) coeffs) ps)) [0..<length x]
      = map (\<lambda>n. foldl (term_add (x ! n) (y ! n)) (z ! n) (zip (drop idx coeffs) (p # ps))) [0..<length x]"
    by (rule map_cong) (simp_all add: dr p)
  then show ?case using step ih p by simp
qed

lemma evaluate_fitted_surface_value:
  assumes "length x = length y" "length coeffs = length (exponent_pairs D)"
  shows "evaluate_fitted_surface coeffs x y (int D) = Inr (map2 (poly_value coeffs D) x y)"
proof -
  have pv: "\<And>u v. poly_value coeffs D u v = foldl (term_add u v) (Fin 0) (zip coeffs (exponent_pairs D))"
    by (simp add: poly_value_def)
  have "fold (\<lambda>(i, j). surface_accumulate coeffs x y i j) (exponent_pairs D) (Inr (zeros_like x, 0))
      = Inr (map (\<lambda>n. foldl (term_add (x ! n) (y ! n)) (zeros_like x ! n) (zip (drop 0 coeffs) (exponent_pairs D)))
                [0..<length x], 0 + length (exponent_pairs D))"
    using assms by (intro surface_accumulate_pairs) (simp_all add: zeros_like_def)
  also have "map (\<lambda>n. foldl (term_add (x ! n) (y ! n)) (zeros_like x ! n) (zip (drop 0 coeffs) (exponent_pairs D))) [0..<length x]
      = map (\<lambda>n. poly_value coeffs D (x ! n) (y ! n)) [0..<length x]"
    by (rule map_cong) (simp_all add: pv zeros_like_def)
  finally have "fold (\<lambda>(i, j). surface_accumulate coeffs x y i j) (exponent_pairs D) (Inr (zeros_like x, 0))
      = Inr (map2 (poly_value coeffs D) x y, 0 + length (exponent_pairs D))"
    by (simp only: map2_conv_nth [OF assms(1)])
  then show ?thesis
    unfolding evaluate_fitted_surface_def
    by (simp only: nested_range_pairs) simp
qed

lemma poly2d_accumulate_eq: "poly2d_accumulate = surface_accumulate"
  by (intro ext) (simp add: poly2d_accumulate_def surface_accumulate_def)

lemma eval_poly2d_eq: "eval_poly2d coeffs x y D = evaluate_fitted_surface coeffs x y D"
  by (simp add: eval_poly2d_def evaluate_fitted_surface_def poly2d_accumulate_eq)

text \<open>
  C2. The evaluator of the fitting script and the evaluator of the mapping script are
  the same function, and for a coefficient vector of length \<open>(D+1)(D+2)/2\<close> and inputs
  of one shape both return, at every point, the sum of \<open>C[k] * x^i * y^j\<close> over the
  exponent pairs in the order of the design matrix's columns (\<open>i\<close> outer, \<open>j\<close> inner).
\<close>

theorem evaluators_agree:
  assumes "length x = length y" and "0 \<le> D"
    and "length coeffs = nat ((D + 1) * (D + 2) div 2)"
  shows "evaluate_fitted_surface coeffs x y D = eval_poly2d coeffs x y D
       \<and> eval_poly2d coeffs x y D = Inr (map2 (poly_value coeffs (nat D)) x y)"
proof -
  obtain d where d: "D = int d" using assms(2) nonneg_int_cases by blast
  have "int ((d + 1) * (d + 2) div 2) = (D + 1) * (D + 2) div 2"
    unfolding d by (simp only: zdiv_int of_nat_mult of_nat_add of_nat_1 of_nat_numeral)
  then have "nat ((D + 1) * (D + 2) div 2) = (d + 1) * (d + 2) div 2" by simp
  then have len: "length coeffs = length (exponent_pairs d)"
    using assms(3) by (simp only: length_exponent_pairs)
  show ?thesis
    using evaluate_fitted_surface_value [OF assms(1) len]
    by (simp add: eval_poly2d_eq d)
qed

theorem evaluators_agree_witness:
  "evaluate_fitted_surface [Fin 1, Fin 2, Fin 3] [Fin 2, Fin 0] [Fin 5, Fin 1] 1
     = eval_poly2d [Fin 1, Fin 2, Fin 3] [Fin 2, Fin 0] [Fin 5, Fin 1] 1
   \<and> eval_poly2d [Fin 1, Fin 2, Fin 3] [Fin 2, Fin 0] [Fin 5, Fin 1] 1 = Inr [Fin 17, Fin 3]"
  using evaluators_agree [of "[Fin 2, Fin 0]" "[Fin 5, Fin 1]" 1 "[Fin 1, Fin 2, Fin 3]"]
  by (simp add: poly_value_def term_add_def exponent_pairs_def eval_nat_numeral)

subsection \<open>The pitch and the two walks\<close>











subsection \<open>Rows and the grid\<close>



lemma finish_edge_error:
  "finish_edge include_edges bound vs = Inl e \<Longrightarrow> e = IndexError ''list index out of range''"
  by (auto simp: finish_edge_def split: if_splits)

lemma grid_row_error:
  "grid_row x_min x_max p_start p_end include_edges = Some (Inl e)
     \<Longrightarrow> e = IndexError ''list index out of range''"
  by (auto simp: grid_row_def split: option.splits dest: finish_edge_error)

lemma grid_rows_error:
  "grid_rows x_min x_max p_start p_end include_edges ys acc = Some (Inl e)
     \<Longrightarrow> e = IndexError ''list index out of range''"
proof (induction ys arbitrary: acc)
  case Nil
  then show ?case by (cases acc) simp
next
  case (Cons yy ys)
  obtain X Y where acc: "acc = (X, Y)" by (cases acc)
  show ?case
  proof (cases "grid_row x_min x_max p_start p_end include_edges")
    case None
    then show ?thesis using Cons.prems acc by simp
  next
    case (Some r)
    show ?thesis
    proof (cases r)
      case (Inl e')
      then show ?thesis using Cons.prems acc Some grid_row_error [of x_min x_max p_start p_end include_edges e']
        by simp
    next
      case (Inr row)
      then show ?thesis using Cons.prems acc Some Cons.IH by simp
    qed
  qed
qed





subsection \<open>Pitch validation and termination\<close>

text \<open>
  C4. \<open>generate_points\<close> raises its pitch error (the \<open>ValueError\<close> "All pitch values must
  be positive.", the specification's InvalidPitchError) if and only if at least one of
  the three pitches is \<open>\<le> 0\<close>; no other path raises a \<open>ValueError\<close>. The check
  precedes both loops, so the error is the whole result and no point is produced, for every
  domain; the call with pitches \<open>0, 1, 1\<close> raises.
\<close>

theorem invalid_pitch_iff:
  "(generate_points domain p_start p_end p_y include_edges
      = Some (Inl (ValueError ''All pitch values must be positive.'')))
     = (p_start \<le> 0 \<or> p_end \<le> 0 \<or> p_y \<le> 0)
   \<and> (\<exists>msg. generate_points domain p_start p_end p_y include_edges = Some (Inl (ValueError msg)))
     = (p_start \<le> 0 \<or> p_end \<le> 0 \<or> p_y \<le> 0)
   \<and> generate_points domain 0 1 1 include_edges
       = Some (Inl (ValueError ''All pitch values must be positive.''))"
proof -
  obtain x_min x_max y_min y_max where d: "domain = (x_min, x_max, y_min, y_max)"
    by (cases domain) auto
  have bad: "p_start \<le> 0 \<or> p_end \<le> 0 \<or> p_y \<le> 0 \<Longrightarrow>
      generate_points domain p_start p_end p_y include_edges
        = Some (Inl (ValueError ''All pitch values must be positive.''))"
    by (simp add: generate_points_def d)
  have good: "\<not> (p_start \<le> 0 \<or> p_end \<le> 0 \<or> p_y \<le> 0) \<Longrightarrow>
      generate_points domain p_start p_end p_y include_edges \<noteq> Some (Inl (ValueError msg))" for msg
  proof
    assume ok: "\<not> (p_start \<le> 0 \<or> p_end \<le> 0 \<or> p_y \<le> 0)"
      and r: "generate_points domain p_start p_end p_y include_edges = Some (Inl (ValueError msg))"
    show False
    proof (cases "walk_y y_max p_y y_min []")
      case None
      then show ?thesis using ok r by (simp add: generate_points_def d)
    next
      case (Some ys0)
      show ?thesis
      proof (cases "finish_edge include_edges y_max ys0")
        case (Inl e)
        then have "e = IndexError ''list index out of range''" by (rule finish_edge_error)
        then show ?thesis using ok r Some Inl by (simp add: generate_points_def d)
      next
        case (Inr ys)
        then have "grid_rows x_min x_max p_start p_end include_edges ys ([], [])
            = Some (Inl (ValueError msg))"
          using ok r Some by (simp add: generate_points_def d)
        then show ?thesis using grid_rows_error by blast
      qed
    qed
  qed
  show ?thesis using bad good by (auto simp: generate_points_def d)
qed

theorem invalid_pitch_iff_witness:
  "generate_points (0, 10, 0, 10) 0 1 1 True
     = Some (Inl (ValueError ''All pitch values must be positive.''))
   \<and> generate_points (0, 10, 0, 10) 2 5 0 True
     = Some (Inl (ValueError ''All pitch values must be positive.''))"
  using invalid_pitch_iff [of "(0, 10, 0, 10)" 0 1 1 True]
    invalid_pitch_iff [of "(0, 10, 0, 10)" 2 5 0 True]
  by simp



subsection \<open>Spacing and edges\<close>







subsection \<open>The model file\<close>

lemma floats_of_JFloat: "floats_of (map JFloat coeffs) = Inr coeffs"
  by (induction coeffs) simp_all

text \<open>
  C8, amended. Loading the dict that the fit wrote gives back the saved degree, the
  coefficients in the same number and order, the normalisation parameters and the domain
  bounds, each exactly. The keys of the dict are \<open>order\<close>, \<open>coeffs\<close>, \<open>x_mean\<close>, \<open>x_std\<close>,
  \<open>y_mean\<close>, \<open>y_std\<close>, \<open>x_min\<close>, \<open>x_max\<close>, \<open>y_min\<close>, \<open>y_max\<close>, in this order: the degree
  is stored under \<open>order\<close>.
\<close>

theorem model_round_trip:
  "load_model (model_dict order coeffs (x_mean, x_std, y_mean, y_std) (x_min, x_max, y_min, y_max))
     = Inr (order, coeffs, (Fin x_mean, Fin x_std, Fin y_mean, Fin y_std),
            (Fin x_min, Fin x_max, Fin y_min, Fin y_max))
   \<and> map fst (model_dict order coeffs (x_mean, x_std, y_mean, y_std) (x_min, x_max, y_min, y_max))
     = [''order'', ''coeffs'', ''x_mean'', ''x_std'', ''y_mean'', ''y_std'',
        ''x_min'', ''x_max'', ''y_min'', ''y_max'']"
  by (simp add: load_model_def model_dict_def bind_err_def float_key_def getkey_def
      floats_of_JFloat)

theorem model_round_trip_witness:
  "load_model (model_dict 1 [Fin 0, Fin 1, NaN] (0, 1, 0, 1) (0, 1, 0, 1))
     = Inr (1, [Fin 0, Fin 1, NaN], (Fin 0, Fin 1, Fin 0, Fin 1), (Fin 0, Fin 1, Fin 0, Fin 1))"
  using model_round_trip [of 1 "[Fin 0, Fin 1, NaN]" 0 1 0 1 0 1 0 1]
  by simp

text \<open>
  C8, as stated, fails: the written dict has no key \<open>degree\<close>; reading \<open>model["degree"]\<close>
  raises \<open>KeyError\<close>, and the degree is found under \<open>order\<close>.
\<close>

theorem degree_key_counterexample:
  "map_of (model_dict 1 [Fin 0, Fin 1, Fin 1] (0, 1, 0, 1) (0, 1, 0, 1)) ''degree'' = None
   \<and> getkey (model_dict 1 [Fin 0, Fin 1, Fin 1] (0, 1, 0, 1) (0, 1, 0, 1)) ''degree''
       = Inl (KeyError ''degree'')
   \<and> map_of (model_dict 1 [Fin 0, Fin 1, Fin 1] (0, 1, 0, 1) (0, 1, 0, 1)) ''order''
       = Some (JInt 1)"
  by (simp add: model_dict_def getkey_def)

subsection \<open>Reading the points\<close>












subsection \<open>Normalisation and the fit\<close>




lemma length_standardize: "length (standardize xs m s) = length xs"
  by (simp add: standardize_def)

lemma fit_inputs_ok:
  assumes "points \<noteq> []" "0 \<le> order"
  shows "\<exists>X. build_design_matrix
               (standardize (map fst points) (np_mean (map fst points)) (np_std (map fst points)))
               (standardize (map (fst \<circ> snd) points) (np_mean (map (fst \<circ> snd) points))
                  (np_std (map (fst \<circ> snd) points))) order = Inr X
           \<and> shape X = (length points, nat ((order + 1) * (order + 2) div 2))
           \<and> fit_inputs points order
               = Inr (X, map (snd \<circ> snd) points,
                      (np_mean (map fst points), np_std (map fst points),
                       np_mean (map (fst \<circ> snd) points), np_std (map (fst \<circ> snd) points)))"
proof -
  let ?x = "standardize (map fst points) (np_mean (map fst points)) (np_std (map fst points))"
  let ?y = "standardize (map (fst \<circ> snd) points) (np_mean (map (fst \<circ> snd) points))
                  (np_std (map (fst \<circ> snd) points))"
  have len: "length ?x = length ?y" by (simp add: length_standardize)
  obtain d where d: "order = int d" using assms(2) nonneg_int_cases by blast
  have "int ((d + 1) * (d + 2) div 2) = (order + 1) * (order + 2) div 2"
    unfolding d by (simp only: zdiv_int of_nat_mult of_nat_add of_nat_1 of_nat_numeral)
  then have cnt: "nat ((order + 1) * (order + 2) div 2) = length (exponent_pairs d)"
    by (simp add: length_exponent_pairs)
  obtain X where X: "build_design_matrix ?x ?y order = Inr X"
    and sh: "shape X = (length ?x, nat ((order + 1) * (order + 2) div 2))"
    using build_design_matrix_int [OF len, of d] by (simp add: d [symmetric] cnt)
  have "fit_inputs points order
               = Inr (X, map (snd \<circ> snd) points,
                      (np_mean (map fst points), np_std (map fst points),
                       np_mean (map (fst \<circ> snd) points), np_std (map (fst \<circ> snd) points)))"
    using assms(1) X by (simp add: fit_inputs_def Let_def)
  then show ?thesis using X sh by (simp add: length_standardize)
qed

lemma length_concat_replicate: "length (concat (replicate n xs)) = n * length xs"
  by (induction n) simp_all

lemma length_concat_map_replicate: "length (concat (map (replicate k) ys)) = length ys * k"
  by (induction ys) simp_all

lemma meshgrid_lengths:
  "length (fst (meshgrid xs ys)) = length (snd (meshgrid xs ys))"
  by (simp add: meshgrid_def length_concat_replicate length_concat_map_replicate)

lemma evaluate_on_grid:
  assumes "0 \<le> order" "length coeffs = nat ((order + 1) * (order + 2) div 2)"
    and "length xg = length yg"
  shows "\<exists>zg. evaluate_fitted_surface coeffs xg yg order = Inr zg"
proof -
  obtain d where d: "order = int d" using assms(1) nonneg_int_cases by blast
  have "int ((d + 1) * (d + 2) div 2) = (order + 1) * (order + 2) div 2"
    unfolding d by (simp only: zdiv_int of_nat_mult of_nat_add of_nat_1 of_nat_numeral)
  then have "length coeffs = length (exponent_pairs d)"
    using assms(2) by (simp add: length_exponent_pairs)
  then show ?thesis
    using evaluate_fitted_surface_value [OF assms(3), of coeffs d] by (simp add: d)
qed

lemma create_result:
  assumes rd: "read_points pyfloat file_lines = Inr points"
    and fit: "fit_inputs points order = Inr (X, z, (x_mean, x_std, y_mean, y_std))"
    and ord: "0 \<le> order"
  shows "(lstsq X z = Inl e \<longrightarrow>
            create_polynomial_surface pyfloat lstsq file_lines order = Inl e)
       \<and> (lstsq X z = Inr coeffs \<and> length coeffs = nat ((order + 1) * (order + 2) div 2) \<longrightarrow>
            (\<exists>mesh. create_polynomial_surface pyfloat lstsq file_lines order
               = Inr (mesh, model_dict order coeffs (x_mean, x_std, y_mean, y_std)
                        (Min (set (map fst points)), Max (set (map fst points)),
                         Min (set (map (fst \<circ> snd) points)), Max (set (map (fst \<circ> snd) points))))))"
proof (intro conjI impI)
  assume "lstsq X z = Inl e"
  then show "create_polynomial_surface pyfloat lstsq file_lines order = Inl e"
    by (simp add: create_polynomial_surface_def rd fit)
next
  assume a: "lstsq X z = Inr coeffs \<and> length coeffs = nat ((order + 1) * (order + 2) div 2)"
  let ?xs = "linspace (Min (set (map fst points))) (Max (set (map fst points))) 100"
  let ?ys = "linspace (Min (set (map (fst \<circ> snd) points))) (Max (set (map (fst \<circ> snd) points))) 100"
  let ?xg = "standardize (fst (meshgrid ?xs ?ys)) x_mean x_std"
  let ?yg = "standardize (snd (meshgrid ?xs ?ys)) y_mean y_std"
  have "length ?xg = length ?yg"
    by (simp add: length_standardize meshgrid_lengths)
  then obtain zg where zg: "evaluate_fitted_surface coeffs ?xg ?yg order = Inr zg"
    using evaluate_on_grid [OF ord] a by blast
  show "\<exists>mesh. create_polynomial_surface pyfloat lstsq file_lines order
               = Inr (mesh, model_dict order coeffs (x_mean, x_std, y_mean, y_std)
                        (Min (set (map fst points)), Max (set (map fst points)),
                         Min (set (map (fst \<circ> snd) points)), Max (set (map (fst \<circ> snd) points))))"
    using a zg
    by (simp add: create_polynomial_surface_def rd fit Let_def split_beta)
qed

subsection \<open>Constant axes\<close>





subsection \<open>The number of coefficients\<close>

lemma fit_coefficient_count:
  assumes ord: "0 \<le> D"
    and contract: "\<forall>X z c. lstsq X z = Inr c \<longrightarrow> length c = snd (shape X)"
    and res: "create_polynomial_surface pyfloat lstsq file_lines D = Inr (mesh, model)"
  shows "\<exists>c. map_of model ''coeffs'' = Some (JList (map JFloat c))
            \<and> length c = nat ((D + 1) * (D + 2) div 2)"
proof -
  obtain points where rd: "read_points pyfloat file_lines = Inr points"
    using res by (cases "read_points pyfloat file_lines")
      (simp_all add: create_polynomial_surface_def)
  have ne: "points \<noteq> []"
  proof
    assume "points = []"
    then have "fit_inputs points D = Inl (IndexError ''too many indices for array'')"
      by (simp add: fit_inputs_def)
    then show False using res rd by (simp add: create_polynomial_surface_def)
  qed
  let ?xr = "map fst points" and ?yr = "map (fst \<circ> snd) points" and ?z = "map (snd \<circ> snd) points"
  obtain X where sh: "shape X = (length points, nat ((D + 1) * (D + 2) div 2))"
    and fit: "fit_inputs points D
               = Inr (X, ?z, (np_mean ?xr, np_std ?xr, np_mean ?yr, np_std ?yr))"
    using fit_inputs_ok [OF ne ord] by blast
  note cr = create_result [OF rd fit ord, of lstsq]
  show ?thesis
  proof (cases "lstsq X ?z")
    case (Inl e)
    then show ?thesis using cr [of e] res by simp
  next
    case (Inr c)
    then have len: "length c = nat ((D + 1) * (D + 2) div 2)"
      using contract sh by simp
    then obtain mesh' where "create_polynomial_surface pyfloat lstsq file_lines D
               = Inr (mesh', model_dict D c (np_mean ?xr, np_std ?xr, np_mean ?yr, np_std ?yr)
                        (Min (set ?xr), Max (set ?xr), Min (set ?yr), Max (set ?yr)))"
      using cr [of _ c] Inr by blast
    then have "model = model_dict D c (np_mean ?xr, np_std ?xr, np_mean ?yr, np_std ?yr)
                        (Min (set ?xr), Max (set ?xr), Min (set ?yr), Max (set ?yr))"
      using res by simp
    then have "map_of model ''coeffs'' = Some (JList (map JFloat c))"
      by (simp add: model_dict_def)
    then show ?thesis using len by blast
  qed
qed

lemma create_returns:
  assumes rd: "read_points pyfloat file_lines = Inr points" and ne: "points \<noteq> []"
    and ord: "0 \<le> D"
    and total: "\<forall>X z. \<exists>c. lstsq X z = Inr c \<and> length c = snd (shape X)"
  shows "\<exists>mesh model. create_polynomial_surface pyfloat lstsq file_lines D = Inr (mesh, model)"
proof -
  let ?xr = "map fst points" and ?yr = "map (fst \<circ> snd) points" and ?z = "map (snd \<circ> snd) points"
  obtain X where sh: "shape X = (length points, nat ((D + 1) * (D + 2) div 2))"
    and fit: "fit_inputs points D
               = Inr (X, ?z, (np_mean ?xr, np_std ?xr, np_mean ?yr, np_std ?yr))"
    using fit_inputs_ok [OF ne ord] by blast
  obtain c where c: "lstsq X ?z = Inr c" "length c = snd (shape X)"
    using total by blast
  then have "length c = nat ((D + 1) * (D + 2) div 2)" using sh by simp
  then show ?thesis using create_result [OF rd fit ord, of lstsq _ c] c by blast
qed

lemma read_square:
  "read_points example_float [''4'', ''0 0 0'', ''1 0 1'', ''0 1 1'', ''1 1 2'']
     = Inr [(0, 0, 0), (1, 0, 1), (0, 1, 1), (1, 1, 2)]"
  by (simp add: read_points_def point_of_line_def str_strip_def is_space_def
      float_of_field_def example_float_def)

text \<open>
  C1. For every degree \<open>D \<ge> 0\<close> and coordinate arrays \<open>x\<close>, \<open>y\<close> of one shape, the design
  matrix is built without error, has one row per point and exactly \<open>(D+1)(D+2)/2\<close>
  columns, and its column \<open>k\<close> holds \<open>x^i * y^j\<close> for the \<open>k\<close>-th exponent pair \<open>(i, j)\<close>
  of the enumeration \<open>i\<close> in \<open>[0, D]\<close>, \<open>j\<close> in \<open>[0, D - i]\<close>. With a least-squares
  solver that returns one coefficient per column (as numpy's does), every model that
  \<open>create_polynomial_surface\<close> returns holds \<open>(D+1)(D+2)/2\<close> coefficients.
\<close>

theorem design_matrix_columns:
  assumes "length x = length y" and "0 \<le> D"
  shows "(\<exists>m. build_design_matrix x y D = Inr m
           \<and> shape m = (length x, nat ((D + 1) * (D + 2) div 2))
           \<and> length (exponent_pairs (nat D)) = nat ((D + 1) * (D + 2) div 2)
           \<and> length (rows m) = length x
           \<and> (\<forall>n < length x. length (rows m ! n) = nat ((D + 1) * (D + 2) div 2)
                \<and> (\<forall>k < length (exponent_pairs (nat D)).
                      rows m ! n ! k =
                        np_multiply (np_power (x ! n) (fst (exponent_pairs (nat D) ! k)))
                                    (np_power (y ! n) (snd (exponent_pairs (nat D) ! k))))))
       \<and> (\<forall>pyfloat lstsq file_lines mesh model.
             (\<forall>X z c. lstsq X z = Inr c \<longrightarrow> length c = snd (shape X))
             \<and> create_polynomial_surface pyfloat lstsq file_lines D = Inr (mesh, model)
             \<longrightarrow> (\<exists>c. map_of model ''coeffs'' = Some (JList (map JFloat c))
                      \<and> length c = nat ((D + 1) * (D + 2) div 2)))"
  using design_matrix_shape [OF assms] fit_coefficient_count [OF assms(2)]
  by blast

theorem design_matrix_columns_witness:
  "(\<exists>m. build_design_matrix [Fin 2, Fin 3] [Fin 5, Fin 7] 1 = Inr m
       \<and> shape m = (2, 3)
       \<and> rows m = [[Fin 1, Fin 5, Fin 2], [Fin 1, Fin 7, Fin 3]])
   \<and> (\<exists>mesh model c.
         create_polynomial_surface example_float (\<lambda>X z. Inr (replicate (snd (shape X)) (Fin 0)))
             [''4'', ''0 0 0'', ''1 0 1'', ''0 1 1'', ''1 1 2''] 1 = Inr (mesh, model)
       \<and> map_of model ''coeffs'' = Some (JList (map JFloat c)) \<and> length c = 3)"
proof -
  note th = design_matrix_columns [of "[Fin 2, Fin 3]" "[Fin 5, Fin 7]" 1]
  obtain m where m: "build_design_matrix [Fin 2, Fin 3] [Fin 5, Fin 7] 1 = Inr m"
    and sh: "shape m = (2, 3)"
    using th by auto
  have "build_design_matrix [Fin 2, Fin 3] [Fin 5, Fin 7] 1
      = Inr \<lparr>shape = (2, 3), rows = [[Fin 1, Fin 5, Fin 2], [Fin 1, Fin 7, Fin 3]]\<rparr>"
    by (simp add: build_design_matrix_def design_terms_def design_append_def design_term_def
        arr_binop_def arr_power_def vstack_def transpose_T_def eval_nat_numeral)
  then have a: "\<exists>m. build_design_matrix [Fin 2, Fin 3] [Fin 5, Fin 7] 1 = Inr m
       \<and> shape m = (2, 3)
       \<and> rows m = [[Fin 1, Fin 5, Fin 2], [Fin 1, Fin 7, Fin 3]]"
    using m sh by auto
  let ?lstsq = "\<lambda>(X :: ndarray2) (z :: real list). (Inr (replicate (snd (shape X)) (Fin 0)) :: error + ndarray)"
  obtain mesh model where r: "create_polynomial_surface example_float ?lstsq
             [''4'', ''0 0 0'', ''1 0 1'', ''0 1 1'', ''1 1 2''] 1 = Inr (mesh, model)"
    using create_returns [OF read_square, of 1 ?lstsq] by auto
  have "\<exists>c. map_of model ''coeffs'' = Some (JList (map JFloat c)) \<and> length c = 3"
    using th [THEN conjunct2, rule_format, of ?lstsq example_float
        "[''4'', ''0 0 0'', ''1 0 1'', ''0 1 1'', ''1 1 2'']" mesh model] r
    by simp
  then show ?thesis using a r by blast
qed

end
